theory Spec2Isabelle
  imports Complex_Main "HOL-Library.Word" "HOL-Library.Multiset"
begin

unbundle bit_operations_syntax

section \<open>Indirect-object cache (cpdf\_indirect\_object\_holder.cpp)\<close>

text \<open>
  An indirect object carries its object number and generation number; \<open>payload\<close> stands for
  the payload, which the holder never inspects.  The holder is a map from object numbers
  to retained pointers, where a pointer may be null (\<open>Some None\<close> is a key that is present
  with a null pointer), together with the counter \<open>last_obj_num_\<close>.  Both numbers are
  \<open>uint32_t\<close>, so arithmetic on them wraps.
\<close>

record pdf_object =
  obj_num :: "32 word"
  gen_num :: "32 word"
  payload :: nat

record holder =
  indirect_objs :: "32 word \<rightharpoonup> pdf_object option"
  last_obj_num :: "32 word"

text \<open>
  Modelled from the spec: the header cpdf\_object.h is not part of the sources at hand;
  the spec calls \<open>kInvalidObjNum\<close> the sentinel invalid value of the 32-bit key, which is
  \<open>static_cast<uint32_t>(-1)\<close>.
\<close>

definition kInvalidObjNum :: "32 word" where
  "kInvalidObjNum = - 1"

definition FilterInvalidObjNum :: "pdf_object option \<Rightarrow> pdf_object option" where
  "FilterInvalidObjNum p =
     (case p of
        None \<Rightarrow> None
      | Some obj \<Rightarrow> if obj_num obj \<noteq> kInvalidObjNum then Some obj else None)"

definition GetIndirectObjectInternal :: "holder \<Rightarrow> 32 word \<Rightarrow> pdf_object option" where
  "GetIndirectObjectInternal h objnum =
     (case indirect_objs h objnum of
        None \<Rightarrow> None
      | Some p \<Rightarrow> FilterInvalidObjNum p)"

text \<open>
  \<open>ParseIndirectObject\<close> is virtual; the parser of a document may call back into the
  holder while it runs.  A parser is therefore a parameter that receives the re-entrant
  lookup, the object number and the holder, and returns the parsed object (or null) and
  the holder as it left it.  The outer \<open>option\<close> is the fuel of the model: \<open>None\<close> means
  that the nesting of parser calls exceeded the fuel, every other outcome is \<open>Some\<close>.
\<close>

type_synonym lookup = "32 word \<Rightarrow> holder \<Rightarrow> (pdf_object option \<times> holder) option"

type_synonym parser = "lookup \<Rightarrow> 32 word \<Rightarrow> holder \<Rightarrow> (pdf_object option \<times> holder) option"

text \<open>
  What \<open>GetOrParseIndirectObjectInternal\<close> does once the parser has returned: a null
  result erases the placeholder, any other result gets its object number, raises the
  counter and replaces the placeholder.
\<close>

definition store_parsed :: "32 word \<Rightarrow> pdf_object option \<times> holder \<Rightarrow> pdf_object option \<times> holder" where
  "store_parsed objnum r =
     (case r of
        (None, h) \<Rightarrow> (None, h\<lparr>indirect_objs := (indirect_objs h)(objnum := None)\<rparr>)
      | (Some pNewObj, h) \<Rightarrow>
          (let result = pNewObj\<lparr>obj_num := objnum\<rparr>
           in (Some result,
               h\<lparr>indirect_objs := (indirect_objs h)(objnum \<mapsto> Some result),
                 last_obj_num := max (last_obj_num h) objnum\<rparr>)))"

definition insert_placeholder :: "32 word \<Rightarrow> holder \<Rightarrow> holder" where
  "insert_placeholder objnum h = h\<lparr>indirect_objs := (indirect_objs h)(objnum \<mapsto> None)\<rparr>"

fun GetOrParseIndirectObjectInternal :: "nat \<Rightarrow> parser \<Rightarrow> 32 word \<Rightarrow> holder \<Rightarrow> (pdf_object option \<times> holder) option" where
  "GetOrParseIndirectObjectInternal fuel parse objnum h =
     (if objnum = 0 \<or> objnum = kInvalidObjNum then Some (None, h)
      else case indirect_objs h objnum of
        Some p \<Rightarrow> Some (FilterInvalidObjNum p, h)
      | None \<Rightarrow>
          (case fuel of
             0 \<Rightarrow> None
           | Suc n \<Rightarrow>
               map_option (store_parsed objnum)
                 (parse (GetOrParseIndirectObjectInternal n parse) objnum
                    (insert_placeholder objnum h))))"

declare GetOrParseIndirectObjectInternal.simps [simp del]

text \<open>
  \<open>CHECK(!pObj->GetObjNum())\<close> aborts the process when the object already has a number:
  the result \<open>None\<close>.
\<close>

definition AddIndirectObject :: "holder \<Rightarrow> pdf_object \<Rightarrow> (32 word \<times> holder) option" where
  "AddIndirectObject h pObj =
     (if obj_num pObj \<noteq> 0 then None
      else
        let n = last_obj_num h + 1
        in Some (n, h\<lparr>indirect_objs := (indirect_objs h)(n \<mapsto> Some (pObj\<lparr>obj_num := n\<rparr>)),
                       last_obj_num := n\<rparr>))"

text \<open>
  \<open>indirect_objs_[objnum]\<close> creates a null entry when the key is absent, also on the path
  that then returns false.  \<open>DCHECK(objnum)\<close> is compiled out of release builds and is
  not modelled.
\<close>

definition ReplaceIndirectObjectIfHigherGeneration :: "holder \<Rightarrow> 32 word \<Rightarrow> pdf_object option \<Rightarrow> bool \<times> holder" where
  "ReplaceIndirectObjectIfHigherGeneration h objnum pObj =
     (case pObj of
        None \<Rightarrow> (False, h)
      | Some obj \<Rightarrow>
          if objnum = kInvalidObjNum then (False, h)
          else
            let obj_holder = (case indirect_objs h objnum of None \<Rightarrow> None | Some p \<Rightarrow> p);
                h1 = h\<lparr>indirect_objs := (indirect_objs h)(objnum \<mapsto> obj_holder)\<rparr>
            in case FilterInvalidObjNum obj_holder of
                 Some old_object \<Rightarrow>
                   if gen_num obj \<le> gen_num old_object then (False, h1)
                   else (True, h1\<lparr>indirect_objs := (indirect_objs h1)(objnum \<mapsto> Some (obj\<lparr>obj_num := objnum\<rparr>)),
                                  last_obj_num := max (last_obj_num h1) objnum\<rparr>)
               | None \<Rightarrow>
                   (True, h1\<lparr>indirect_objs := (indirect_objs h1)(objnum \<mapsto> Some (obj\<lparr>obj_num := objnum\<rparr>)),
                             last_obj_num := max (last_obj_num h1) objnum\<rparr>))"

definition DeleteIndirectObject :: "holder \<Rightarrow> 32 word \<Rightarrow> holder" where
  "DeleteIndirectObject h objnum =
     (case indirect_objs h objnum of
        None \<Rightarrow> h
      | Some p \<Rightarrow>
          (case FilterInvalidObjNum p of
             None \<Rightarrow> h
           | Some _ \<Rightarrow> h\<lparr>indirect_objs := (indirect_objs h)(objnum := None)\<rparr>))"

text \<open>The holder of a freshly constructed document.\<close>

definition empty_holder :: holder where
  "empty_holder = \<lparr>indirect_objs = Map.empty, last_obj_num = 0\<rparr>"

text \<open>An object that has not been given a number yet, as \<open>AddIndirectObject\<close> requires.\<close>

definition fresh_object :: pdf_object where
  "fresh_object = \<lparr>obj_num = 0, gen_num = 0, payload = 0\<rparr>"

text \<open>A parser for a self-referential object: it asks the holder for the very key it parses.\<close>

definition self_referential_parser :: parser where
  "self_referential_parser lookup objnum h = lookup objnum h"

text \<open>
  A run that starts from the empty holder: an object is stored under the largest valid
  number, one object is added, and the holder is then asked to store an object under
  number 5.
\<close>

definition wrap_trace_h1 :: holder where
  "wrap_trace_h1 = snd (ReplaceIndirectObjectIfHigherGeneration empty_holder 0xFFFFFFFE (Some fresh_object))"

definition wrap_trace_h2 :: holder where
  "wrap_trace_h2 = (case AddIndirectObject wrap_trace_h1 fresh_object of None \<Rightarrow> wrap_trace_h1 | Some r \<Rightarrow> snd r)"

definition wrap_trace_h3 :: holder where
  "wrap_trace_h3 = snd (ReplaceIndirectObjectIfHigherGeneration wrap_trace_h2 5 (Some fresh_object))"

section \<open>JSONL string escaping (pdfium\_cli.cpp)\<close>








section \<open>Thread-count policy of the command line (pdfium\_cli.cpp)\<close>

text \<open>
  Messages on \<open>stderr\<close> are modelled as a list of notices, each with the values it prints.
  \<open>std::thread::hardware_concurrency()\<close> is an \<open>unsigned int\<close>, a count of hardware
  threads far below \<open>2^31\<close>, so the casts to \<open>int\<close> keep its value; it is a \<open>nat\<close> here.
  Worker and thread counts are \<open>int\<close>s that the flag parser keeps between 1 and 32, so
  their product does not overflow.
\<close>

datatype notice =
    Thread_count_clamped int int
  | Reducing_threads int int int int int nat

text \<open>The \<open>--threads\<close> flag, for a value that passed the test \<open>1 \<le> val \<le> 32\<close>.\<close>

definition parse_threads_flag :: "nat \<Rightarrow> int \<Rightarrow> int \<times> notice list" where
  "parse_threads_flag hw_threads val =
     (let max_threads = min 16 (if hw_threads > 0 then int hw_threads else 16);
          thread_count = min val max_threads
      in (thread_count,
          if thread_count \<noteq> val then [Thread_count_clamped val thread_count] else []))"

text \<open>
  The block of \<open>main\<close> that follows the parsing of the operation.  Both operands of the
  division are positive there, so C's truncating division is \<open>div\<close>.
\<close>

definition hybrid_thread_cap :: "nat \<Rightarrow> int \<Rightarrow> int \<Rightarrow> int \<times> notice list" where
  "hybrid_thread_cap hw worker_count thread_count =
     (if worker_count > 1 \<and> thread_count > 1 then
        let hw_concurrency = (if hw = 0 then 8 else hw);
            total_threads = worker_count * thread_count
        in if total_threads > int hw_concurrency then
             let new_thread_count = max 1 (int hw_concurrency div worker_count)
             in (new_thread_count,
                 [Reducing_threads thread_count new_thread_count worker_count thread_count
                    total_threads hw_concurrency])
           else (thread_count, [])
      else (thread_count, []))"

text \<open>The hardware thread count as the cap sees it: 8 when the platform reports 0.\<close>

definition effective_hw :: "nat \<Rightarrow> int" where
  "effective_hw hw = (if hw = 0 then 8 else int hw)"

text \<open>
  \<open>main\<close> for \<open>--workers w --threads t\<close>: the thread count that \<open>render_pages_fast\<close>
  receives and writes into the command line of every child, and the notices printed.
\<close>

definition main_thread_count :: "nat \<Rightarrow> int \<Rightarrow> int \<Rightarrow> int \<times> notice list" where
  "main_thread_count hw worker_count val =
     (let (t1, n1) = parse_threads_flag hw val;
          (t2, n2) = hybrid_thread_cap hw worker_count t1
      in (t2, n1 @ n2))"

text \<open>The first lines of \<open>render_pages_worker\<close>, run by each child on the count it was given.\<close>

definition worker_thread_cap :: "nat \<Rightarrow> int \<Rightarrow> int" where
  "worker_thread_cap hw thread_count =
     (let hw_threads = (if int hw < 1 then 4 else int hw);
          max_per_worker = min hw_threads 16
      in if thread_count > max_per_worker then max_per_worker else thread_count)"

section \<open>Scale and pixel dimensions (pdfium\_cli.cpp, fpdf\_parallel.cpp)\<close>

text \<open>
  A \<open>double\<close> is modelled as a real number: products, quotients and \<open>floor\<close> are exact.
  \<open>INT_MAX\<close> is that of a 32-bit \<open>int\<close>.
\<close>

definition INT_MAX :: int where
  "INT_MAX = 2147483647"

definition INT_MIN :: int where
  "INT_MIN = - 2147483648"

text \<open>\<open>floor((dpi / 72.0) * 1000000.0) / 1000000.0\<close>\<close>

definition render_scale :: "real \<Rightarrow> real" where
  "render_scale dpi = of_int \<lfloor>dpi / 72 * 1000000\<rfloor> / 1000000"

text \<open>
  The conversion of a \<open>double\<close> to \<open>int\<close> truncates towards zero; C++ leaves the behaviour
  undefined when the truncated value is not an \<open>int\<close>.
\<close>

datatype 'a behaviour = Undefined_behaviour | Defined 'a

definition trunc_toward_zero :: "real \<Rightarrow> int" where
  "trunc_toward_zero x = (if 0 \<le> x then \<lfloor>x\<rfloor> else \<lceil>x\<rceil>)"

definition double_to_int :: "real \<Rightarrow> int behaviour" where
  "double_to_int x =
     (if INT_MIN \<le> trunc_toward_zero x \<and> trunc_toward_zero x \<le> INT_MAX then Defined (trunc_toward_zero x)
      else Undefined_behaviour)"

text \<open>
  The pixel dimensions in \<open>render_page_to_png\<close> (and, for the first page of a range, in
  \<open>render_pages_bulk\<close>): the test comes before the casts, so the casts are defined;
  \<open>Dimensions_too_large\<close> is the branch that prints the error and returns 1.
\<close>

datatype pixel_size = Dimensions_too_large | Pixels int int

definition page_pixel_size :: "real \<Rightarrow> real \<Rightarrow> real \<Rightarrow> pixel_size" where
  "page_pixel_size dpi width_pts height_pts =
     (let scale_raw = dpi / 72;
          scale = of_int \<lfloor>scale_raw * 1000000\<rfloor> / 1000000;
          width_raw = width_pts * scale;
          height_raw = height_pts * scale
      in if width_raw > of_int INT_MAX \<or> width_raw < 1 \<or> height_raw > of_int INT_MAX \<or> height_raw < 1
         then Dimensions_too_large
         else Pixels (trunc_toward_zero width_raw) (trunc_toward_zero height_raw))"

section \<open>Page rendering as a sequence of library calls (fpdf\_parallel.cpp)\<close>

text \<open>
  The parser library is an external collaborator.  What it answers is collected in an
  environment: whether a page loads, its size in points, whether it reports transparency,
  and whether a bitmap of a given width, height and format can be had (from the pool or
  by allocation).  What the code asks of it is recorded as the list of calls issued, in
  order, with the arguments that matter; the origin \<open>(0, 0)\<close> of every rectangle is left
  out.  Handles are modelled by what identifies them: a page by its index, a form handle
  and a page collection by whether they are null.
\<close>

record pdf_env =
  load_ok :: "int \<Rightarrow> bool"
  page_width_pts :: "int \<Rightarrow> real"
  page_height_pts :: "int \<Rightarrow> real"
  page_has_transparency :: "int \<Rightarrow> bool"
  bitmap_ok :: "int \<Rightarrow> int \<Rightarrow> int \<Rightarrow> bool"

datatype fpdf_bitmap_format = FPDFBitmap_Gray | FPDFBitmap_BGR | FPDFBitmap_BGRx

definition FPDF_PARALLEL_FORMAT_BGR :: int where
  "FPDF_PARALLEL_FORMAT_BGR = 1"

definition FPDF_PARALLEL_FORMAT_GRAY :: int where
  "FPDF_PARALLEL_FORMAT_GRAY = 2"

text \<open>
  Modelled from the spec: fpdfview.h is not part of the sources at hand; the spec calls
  \<open>FPDF_GRAYSCALE\<close> the grayscale-render flag, set in addition to the flags given: one bit
  of the flags word, \<open>0x08\<close> in the library.
\<close>

definition FPDF_GRAYSCALE :: "32 word" where
  "FPDF_GRAYSCALE = 0x08"

definition ParallelFormatToFPDFFormat :: "int \<Rightarrow> fpdf_bitmap_format" where
  "ParallelFormatToFPDFFormat output_format =
     (if output_format = FPDF_PARALLEL_FORMAT_BGR then FPDFBitmap_BGR
      else if output_format = FPDF_PARALLEL_FORMAT_GRAY then FPDFBitmap_Gray
      else FPDFBitmap_BGRx)"

datatype page_action = FPDFPAGE_AACTION_OPEN | FPDFPAGE_AACTION_CLOSE

datatype api_call =
    FPDF_LoadPage int
  | FORM_OnAfterLoadPage int
  | FORM_DoPageAAction int page_action
  | FORM_OnBeforeClosePage int
  | BitmapPool_Acquire int int fpdf_bitmap_format
  | FPDFBitmap_CreateEx int int fpdf_bitmap_format
  | FPDFBitmap_FillRect int int "32 word"
  | FPDF_RenderPageBitmap int int int int "32 word"
  | FPDF_FFLDraw int int int int "32 word"
  | FPDF_ClosePage int
  | PageHandleCollection_Add int
  | Callback int bool
  | Callback_V2 int int int bool
  | BitmapPool_Release

record parallel_options =
  opt_worker_count :: int
  opt_max_queue_size :: int
  opt_form_handle :: bool
  opt_dpi :: real
  opt_output_format :: int

record render_task =
  task_page_index :: int
  task_width :: int
  task_height :: int
  task_rotate :: int
  task_flags :: "32 word"
  task_page_collection :: bool
  task_form_handle :: bool
  task_output_format :: int

record render_task_v2 = render_task +
  task_dpi :: real

text \<open>\<open>has_transparency ? 0x00000000 : 0xFFFFFFFF\<close>\<close>

definition fill_color :: "pdf_env \<Rightarrow> int \<Rightarrow> 32 word" where
  "fill_color env page = (if page_has_transparency env page then 0x00000000 else 0xFFFFFFFF)"

text \<open>\<open>render_flags = flags; if (output_format == FPDF_PARALLEL_FORMAT_GRAY) render_flags |= FPDF_GRAYSCALE;\<close>\<close>

definition render_flags_for :: "int \<Rightarrow> 32 word \<Rightarrow> 32 word" where
  "render_flags_for fmt fl = (if fmt = FPDF_PARALLEL_FORMAT_GRAY then fl OR FPDF_GRAYSCALE else fl)"

text \<open>
  The dimensions of the per-page mode, shared by \<open>ProcessTaskV2\<close> and the single-threaded
  loop of \<open>FPDF_RenderPagesParallelV2\<close>: the two \<open>static_cast<int>\<close> come before any test.
\<close>

definition auto_detect_dimensions :: "pdf_env \<Rightarrow> real \<Rightarrow> int \<Rightarrow> (int \<times> int) behaviour" where
  "auto_detect_dimensions env d page =
     (let scale = of_int \<lfloor>d / 72 * 1000000\<rfloor> / 1000000
      in case double_to_int (page_width_pts env page * scale) of
           Undefined_behaviour \<Rightarrow> Undefined_behaviour
         | Defined actual_width \<Rightarrow>
             (case double_to_int (page_height_pts env page * scale) of
                Undefined_behaviour \<Rightarrow> Undefined_behaviour
              | Defined actual_height \<Rightarrow> Defined (actual_width, actual_height)))"

text \<open>The calls that follow the loading of the page when a form handle is given, and those before its release.\<close>

definition form_open_calls :: "bool \<Rightarrow> int \<Rightarrow> api_call list" where
  "form_open_calls form page =
     (if form then [FORM_OnAfterLoadPage page, FORM_DoPageAAction page FPDFPAGE_AACTION_OPEN] else [])"

definition form_close_calls :: "bool \<Rightarrow> int \<Rightarrow> api_call list" where
  "form_close_calls form page =
     (if form then [FORM_DoPageAAction page FPDFPAGE_AACTION_CLOSE, FORM_OnBeforeClosePage page] else [])"

text \<open>\<open>if (task.page_collection) task.page_collection->Add(page); else FPDF_ClosePage(page);\<close>\<close>

definition defer_or_close :: "bool \<Rightarrow> int \<Rightarrow> api_call list" where
  "defer_or_close collection page =
     (if collection then [PageHandleCollection_Add page] else [FPDF_ClosePage page])"

text \<open>\<open>GlobalThreadPool::ProcessTask\<close>\<close>

definition ProcessTask :: "pdf_env \<Rightarrow> render_task \<Rightarrow> api_call list" where
  "ProcessTask env task =
     (let p = task_page_index task; w = task_width task; h = task_height task
      in if \<not> load_ok env p then [FPDF_LoadPage p, Callback p False]
         else
           [FPDF_LoadPage p] @ form_open_calls (task_form_handle task) p @
           [FPDFBitmap_CreateEx w h (ParallelFormatToFPDFFormat (task_output_format task))] @
           (if bitmap_ok env w h (task_output_format task) then
              [FPDFBitmap_FillRect w h (fill_color env p),
               FPDF_RenderPageBitmap p w h (task_rotate task)
                 (render_flags_for (task_output_format task) (task_flags task))] @
              (if task_form_handle task then [FPDF_FFLDraw p w h (task_rotate task) (task_flags task)] else [])
            else []) @
           form_close_calls (task_form_handle task) p @
           defer_or_close (task_page_collection task) p @
           [Callback p (bitmap_ok env w h (task_output_format task))])"

text \<open>
  \<open>GlobalThreadPool::ProcessTaskV2\<close>.  The inner function is the part that follows the
  choice of the dimensions.
\<close>

definition render_acquired_v2 :: "pdf_env \<Rightarrow> render_task_v2 \<Rightarrow> int \<Rightarrow> int \<Rightarrow> api_call list" where
  "render_acquired_v2 env task actual_width actual_height =
     (let p = task_page_index task
      in [BitmapPool_Acquire actual_width actual_height
            (ParallelFormatToFPDFFormat (task_output_format task))] @
         (if \<not> bitmap_ok env actual_width actual_height (task_output_format task) then
            defer_or_close (task_page_collection task) p @ [Callback_V2 p 0 0 False]
          else
            [FPDFBitmap_FillRect actual_width actual_height (fill_color env p),
             FPDF_RenderPageBitmap p actual_width actual_height (task_rotate task)
               (render_flags_for (task_output_format task) (task_flags task))] @
            (if task_form_handle task
             then [FPDF_FFLDraw p actual_width actual_height (task_rotate task) (task_flags task)] else []) @
            form_close_calls (task_form_handle task) p @
            defer_or_close (task_page_collection task) p @
            [Callback_V2 p actual_width actual_height True, BitmapPool_Release]))"

definition ProcessTaskV2 :: "pdf_env \<Rightarrow> render_task_v2 \<Rightarrow> api_call list behaviour" where
  "ProcessTaskV2 env task =
     (let p = task_page_index task
      in if \<not> load_ok env p then Defined [FPDF_LoadPage p, Callback_V2 p 0 0 False]
         else
           let opened = [FPDF_LoadPage p] @ form_open_calls (task_form_handle task) p
           in if task_width task = 0 \<and> task_height task = 0 \<and> task_dpi task > 0 then
                (case auto_detect_dimensions env (task_dpi task) p of
                   Undefined_behaviour \<Rightarrow> Undefined_behaviour
                 | Defined (actual_width, actual_height) \<Rightarrow>
                     if actual_width < 1 \<or> actual_height < 1
                     then Defined (opened @ [FPDF_ClosePage p, Callback_V2 p 0 0 False])
                     else Defined (opened @ render_acquired_v2 env task actual_width actual_height))
              else Defined (opened @ render_acquired_v2 env task (task_width task) (task_height task)))"

text \<open>
  One round of the single-threaded loop of \<open>FPDF_RenderPagesParallel\<close>, for one page.
  \<open>options\<close> may be a null pointer: \<open>None\<close>.
\<close>

definition options_form_handle :: "parallel_options option \<Rightarrow> bool" where
  "options_form_handle options = (case options of None \<Rightarrow> False | Some opts \<Rightarrow> opt_form_handle opts)"

definition options_output_format :: "parallel_options option \<Rightarrow> int" where
  "options_output_format options = (case options of None \<Rightarrow> 0 | Some opts \<Rightarrow> opt_output_format opts)"

definition options_dpi :: "parallel_options option \<Rightarrow> real" where
  "options_dpi options = (case options of None \<Rightarrow> 0 | Some opts \<Rightarrow> opt_dpi opts)"

definition single_threaded_page :: "pdf_env \<Rightarrow> int \<Rightarrow> int \<Rightarrow> int \<Rightarrow> 32 word \<Rightarrow> parallel_options option \<Rightarrow> int \<Rightarrow> api_call list" where
  "single_threaded_page env w h rot fl options p =
     (let fmt = options_output_format options
      in if \<not> load_ok env p then [FPDF_LoadPage p, Callback p False]
         else
           [FPDF_LoadPage p, FPDFBitmap_CreateEx w h (ParallelFormatToFPDFFormat fmt)] @
           (if bitmap_ok env w h fmt then
              [FPDFBitmap_FillRect w h (fill_color env p),
               FPDF_RenderPageBitmap p w h rot (render_flags_for fmt fl)] @
              (if options_form_handle options
               then [FPDF_FFLDraw p w h rot (render_flags_for fmt fl)] else []) @
              [Callback p True]
            else [Callback p False]) @
           [FPDF_ClosePage p])"

text \<open>One round of the single-threaded loop of \<open>FPDF_RenderPagesParallelV2\<close>.\<close>

definition single_threaded_page_v2 :: "pdf_env \<Rightarrow> int \<Rightarrow> int \<Rightarrow> int \<Rightarrow> 32 word \<Rightarrow> parallel_options option \<Rightarrow> int \<Rightarrow> api_call list behaviour" where
  "single_threaded_page_v2 env w h rot fl options p =
     (let fmt = options_output_format options;
          auto_detect = (w = 0 \<and> h = 0 \<and> options \<noteq> None \<and> options_dpi options > 0);
          rendered = (\<lambda>actual_width actual_height.
            [BitmapPool_Acquire actual_width actual_height (ParallelFormatToFPDFFormat fmt)] @
            (if \<not> bitmap_ok env actual_width actual_height fmt
             then [FPDF_ClosePage p, Callback_V2 p 0 0 False]
             else
               [FPDFBitmap_FillRect actual_width actual_height (fill_color env p),
                FPDF_RenderPageBitmap p actual_width actual_height rot (render_flags_for fmt fl)] @
               (if options_form_handle options
                then [FPDF_FFLDraw p actual_width actual_height rot (render_flags_for fmt fl)]
                else []) @
               [Callback_V2 p actual_width actual_height True, FPDF_ClosePage p, BitmapPool_Release]))
      in if \<not> load_ok env p then Defined [FPDF_LoadPage p, Callback_V2 p 0 0 False]
         else if auto_detect then
           (case auto_detect_dimensions env (options_dpi options) p of
              Undefined_behaviour \<Rightarrow> Undefined_behaviour
            | Defined (actual_width, actual_height) \<Rightarrow>
                if actual_width < 1 \<or> actual_height < 1
                then Defined [FPDF_LoadPage p, FPDF_ClosePage p, Callback_V2 p 0 0 False]
                else Defined ([FPDF_LoadPage p] @ rendered actual_width actual_height))
         else Defined ([FPDF_LoadPage p] @ rendered w h))"

text \<open>The task that the multi-threaded part of \<open>FPDF_RenderPagesParallelV2\<close> builds for a page.\<close>

definition make_task_v2 :: "int \<Rightarrow> int \<Rightarrow> int \<Rightarrow> 32 word \<Rightarrow> parallel_options option \<Rightarrow> int \<Rightarrow> render_task_v2" where
  "make_task_v2 w h rot fl options p =
     \<lparr>task_page_index = p, task_width = w, task_height = h, task_rotate = rot, task_flags = fl,
      task_page_collection = True,
      task_form_handle = options_form_handle options,
      task_output_format = options_output_format options,
      task_dpi = options_dpi options\<rparr>"

text \<open>The same for \<open>FPDF_RenderPagesParallel\<close>.\<close>

definition make_task :: "int \<Rightarrow> int \<Rightarrow> int \<Rightarrow> 32 word \<Rightarrow> parallel_options option \<Rightarrow> int \<Rightarrow> render_task" where
  "make_task w h rot fl options p =
     \<lparr>task_page_index = p, task_width = w, task_height = h, task_rotate = rot, task_flags = fl,
      task_page_collection = True,
      task_form_handle = options_form_handle options,
      task_output_format = options_output_format options\<rparr>"

text \<open>
  The calls that decide the pixels of a page: the bitmap (with its format), the fill, the
  render call, the form overlay and the form events.  Loading, closing and collecting the
  page, the callback and the return of the bitmap are left out.
\<close>

fun is_bitmap_operation :: "api_call \<Rightarrow> bool" where
  "is_bitmap_operation (FORM_OnAfterLoadPage _) = True"
| "is_bitmap_operation (FORM_DoPageAAction _ _) = True"
| "is_bitmap_operation (FORM_OnBeforeClosePage _) = True"
| "is_bitmap_operation (BitmapPool_Acquire _ _ _) = True"
| "is_bitmap_operation (FPDFBitmap_CreateEx _ _ _) = True"
| "is_bitmap_operation (FPDFBitmap_FillRect _ _ _) = True"
| "is_bitmap_operation (FPDF_RenderPageBitmap _ _ _ _ _) = True"
| "is_bitmap_operation (FPDF_FFLDraw _ _ _ _ _) = True"
| "is_bitmap_operation _ = False"

definition bitmap_operations :: "api_call list \<Rightarrow> api_call list" where
  "bitmap_operations calls = filter is_bitmap_operation calls"

text \<open>The completion callbacks among the calls.\<close>

fun is_callback :: "api_call \<Rightarrow> bool" where
  "is_callback (Callback _ _) = True"
| "is_callback (Callback_V2 _ _ _ _) = True"
| "is_callback _ = False"

text \<open>
  A document of US Letter pages that load, are opaque, and for which every bitmap can be
  had; and the options of a caller that passes a form handle and asks for grayscale.
\<close>

definition letter_env :: pdf_env where
  "letter_env = \<lparr>load_ok = (\<lambda>_. True), page_width_pts = (\<lambda>_. 612), page_height_pts = (\<lambda>_. 792),
                 page_has_transparency = (\<lambda>_. False), bitmap_ok = (\<lambda>_ _ _. True)\<rparr>"

definition gray_form_options :: parallel_options where
  "gray_form_options = \<lparr>opt_worker_count = 0, opt_max_queue_size = 0, opt_form_handle = True,
                          opt_dpi = 0, opt_output_format = 2\<rparr>"

section \<open>Smart mode: the JPEG fast path (pdfium\_cli.cpp)\<close>

text \<open>
  What the parser library reports about a page of the command-line tool: its objects and
  its size in points.  Of an object the code asks its type, its bounds (the call may
  fail: \<open>None\<close>), the names of its image filters and its raw stream data.  Bounds and
  areas are \<open>float\<close>s and \<open>double\<close>s in the source and exact reals here.
\<close>

record page_object =
  obj_is_image :: bool
  obj_bounds :: "(real \<times> real \<times> real \<times> real) option"
  image_filters :: "string list"
  image_raw_data :: "8 word list"

record pdf_page =
  page_objects :: "page_object list"
  page_width :: real
  page_height :: real

text \<open>The bounds are \<open>(left, bottom, right, top)\<close>.\<close>

definition is_scanned_page :: "pdf_page \<Rightarrow> bool" where
  "is_scanned_page page =
     (case page_objects page of
        [obj] \<Rightarrow>
          if \<not> obj_is_image obj then False
          else
            (case obj_bounds obj of
               None \<Rightarrow> False
             | Some (b_left, b_bottom, b_right, b_top) \<Rightarrow>
                 let obj_area = (b_right - b_left) * (b_top - b_bottom);
                     page_area = page_width page * page_height page
                 in if page_area \<le> 0 then False
                    else obj_area / page_area \<ge> 0.95)
      | _ \<Rightarrow> False)"

text \<open>
  The file system, as far as the fast path meets it, for the output file of a page index:
  whether the formatted path exceeds the 512-byte buffer, whether \<open>fopen\<close> succeeds and
  whether \<open>fwrite\<close> writes every byte.
\<close>

record io_env =
  path_too_long :: "int \<Rightarrow> bool"
  fopen_ok :: "int \<Rightarrow> bool"
  fwrite_all :: "int \<Rightarrow> bool"

datatype cli_message =
    Error_output_path_too_long
  | Error_failed_to_open_file int
  | Error_failed_to_write_jpeg
  | Warning_fast_path_failed int

text \<open>\<open>strncmp(filter_name.data(), "DCTDecode", 9) == 0\<close> on a name that ends with a zero byte.\<close>

definition is_dct_filter :: "string \<Rightarrow> bool" where
  "is_dct_filter filter_name = (take 9 filter_name = ''DCTDecode'')"

text \<open>
  \<open>render_scanned_page_fast\<close>: the result and the messages printed; when the result is
  true the file of the page holds exactly the raw data.  \<open>FPDFImageObj_GetImageFilter\<close>
  returns the length of the name with its terminator, which is never 0, and the two calls
  of \<open>FPDFImageObj_GetImageDataRaw\<close> return the length of the raw data, so that
  \<open>actual_size\<close> equals \<open>raw_size\<close>.  A page without objects gives a null object, whose
  filter count is 0.
\<close>

definition render_scanned_page_fast :: "io_env \<Rightarrow> int \<Rightarrow> pdf_page \<Rightarrow> bool \<times> cli_message list" where
  "render_scanned_page_fast io page_idx page =
     (case page_objects page of
        [] \<Rightarrow> (False, [])
      | img_obj # _ \<Rightarrow>
          let jpeg_data = image_raw_data img_obj;
              raw_size = length jpeg_data;
              actual_size = length jpeg_data
          in if \<not> list_ex is_dct_filter (image_filters img_obj) then (False, [])
             else if raw_size = 0 then (False, [])
             else if actual_size = 0 \<or> actual_size > raw_size then (False, [])
             else if actual_size < 3 \<or> jpeg_data ! 0 \<noteq> 0xFF \<or> jpeg_data ! 1 \<noteq> 0xD8 \<or>
                     jpeg_data ! 2 \<noteq> 0xFF then (False, [])
             else if \<not> fopen_ok io page_idx then (False, [Error_failed_to_open_file page_idx])
             else if \<not> fwrite_all io page_idx then (False, [Error_failed_to_write_jpeg])
             else (True, []))"

record cli_config =
  use_ppm :: bool
  use_raw :: bool
  benchmark_mode :: bool

text \<open>
  The smart-mode block of \<open>render_page_to_png\<close> (the single-threaded path), for a page
  that loaded: the page is done (return 0), the function returns 1 because the path does
  not fit, or control falls through to the normal rendering below.
\<close>

datatype smart_outcome = Fast_path_wrote "8 word list" | Return_error | Normal_rendering

definition smart_mode_block :: "cli_config \<Rightarrow> io_env \<Rightarrow> int \<Rightarrow> pdf_page \<Rightarrow> smart_outcome \<times> cli_message list" where
  "smart_mode_block cfg io page_index page =
     (if \<not> use_ppm cfg \<and> \<not> use_raw cfg \<and> \<not> benchmark_mode cfg \<and> is_scanned_page page then
        if path_too_long io page_index then (Return_error, [Error_output_path_too_long])
        else
          (case render_scanned_page_fast io page_index page of
             (True, msgs) \<Rightarrow> (Fast_path_wrote (image_raw_data (hd (page_objects page))), msgs)
           | (False, msgs) \<Rightarrow> (Normal_rendering, msgs))
      else (Normal_rendering, []))"









section \<open>The single-threaded batch of the command line (pdfium\_cli.cpp)\<close>

text \<open>
  The return code of \<open>render_page_to_png\<close>.  What follows the dimension test (creating the
  bitmap, rendering, encoding and writing the file) is the parameter \<open>finish\<close>, which gives
  the return code for the pixel dimensions.
\<close>

definition render_page_to_png :: "cli_config \<Rightarrow> io_env \<Rightarrow> real \<Rightarrow> (int \<Rightarrow> int \<Rightarrow> int) \<Rightarrow> (int \<Rightarrow> pdf_page option) \<Rightarrow> int \<Rightarrow> int" where
  "render_page_to_png cfg io d finish doc page_index =
     (case doc page_index of
        None \<Rightarrow> 1
      | Some page \<Rightarrow>
          (case fst (smart_mode_block cfg io page_index page) of
             Fast_path_wrote _ \<Rightarrow> 0
           | Return_error \<Rightarrow> 1
           | Normal_rendering \<Rightarrow>
               (case page_pixel_size d (page_width page) (page_height page) of
                  Dimensions_too_large \<Rightarrow> 1
                | Pixels width_px height_px \<Rightarrow> finish width_px height_px)))"

text \<open>
  The single-threaded loop of \<open>render_pages_bulk\<close> over the page indices, with the
  counters \<open>pages_processed\<close> and \<open>pages_failed\<close>.
\<close>

fun single_threaded_loop :: "(int \<Rightarrow> int) \<Rightarrow> int list \<Rightarrow> nat \<times> nat \<Rightarrow> nat \<times> nat" where
  "single_threaded_loop render [] counters = counters"
| "single_threaded_loop render (page_idx # rest) (pages_processed, pages_failed) =
     single_threaded_loop render rest
       (pages_processed + 1, if render page_idx \<noteq> 0 then pages_failed + 1 else pages_failed)"

section \<open>The persistent worker pool (fpdf\_parallel.cpp)\<close>

text \<open>
  The pool is modelled as a transition system over its shared state.  Every step is one
  atomic action of one thread: of the controller thread that enqueues and waits, or of
  one of the worker threads.  A thread that blocks is a thread whose next step is not
  enabled.  A task is identified by its page index.  The stop flag, the request to clear
  the bitmap pools and the condition variables do not touch the counter or the queues
  and are left out; \<open>outstanding_tasks_\<close> is an \<open>int\<close> that would need \<open>2^31\<close> tasks to
  overflow.  There is one controller thread, as the interface requires of its callers.
\<close>

type_synonym task = int

































section \<open>Properties of the indirect-object cache\<close>

lemma word32_lt_succ:
  fixes x m :: "32 word"
  assumes "x \<le> m" "m \<noteq> - 1"
  shows "x < m + 1"
proof -
  have "\<not> m + 1 \<le> m"
    using assms(2) by (simp add: inc_less_eq_self_iff_eq)
  then have "m < m + 1" by simp
  with assms(1) show ?thesis by simp
qed

text \<open>
  The slow path of \<open>GetOrParseIndirectObjectInternal\<close> runs the parser on a holder in
  which the key is present with a null pointer, and a parser that fails leaves the holder
  as it was before the call.
\<close>

lemma slow_path_parses_under_placeholder:
  assumes "k \<noteq> 0" "k \<noteq> kInvalidObjNum" "indirect_objs h k = None"
  shows "indirect_objs (insert_placeholder k h) k = Some None \<and>
    GetOrParseIndirectObjectInternal (Suc n) parse k h =
      map_option (store_parsed k)
        (parse (GetOrParseIndirectObjectInternal n parse) k (insert_placeholder k h))"
  using assms
  by (simp add: GetOrParseIndirectObjectInternal.simps [of "Suc n"] insert_placeholder_def)

lemma store_parsed_failure_restores:
  assumes "indirect_objs h k = None"
  shows "store_parsed k (None, insert_placeholder k h) = (None, h)"
  using assms by (simp add: store_parsed_def insert_placeholder_def fun_upd_idem)

lemma delete_keeps_placeholder:
  assumes "indirect_objs h k = Some None"
  shows "DeleteIndirectObject h k = h"
  using assms by (simp add: DeleteIndirectObject_def FilterInvalidObjNum_def)

text \<open>
  C9.  While object number \<open>k\<close> is in flight, that is, while the holder has the
  placeholder (a null pointer) under \<open>k\<close>, a lookup of \<open>k\<close> finds nothing and
  \<open>GetOrParseIndirectObjectInternal\<close> for \<open>k\<close> returns null at once, for every parser and
  with no fuel at all: it does not call the parser, does not change the holder and does
  not recurse.  This covers the parser that re-enters the holder for \<open>k\<close> itself.
\<close>

theorem in_flight_key_is_cache_miss:
  assumes "indirect_objs h k = Some None"
  shows "GetIndirectObjectInternal h k = None \<and>
         GetOrParseIndirectObjectInternal fuel parse k h = Some (None, h)"
  using assms
  by (simp add: GetIndirectObjectInternal_def FilterInvalidObjNum_def
      GetOrParseIndirectObjectInternal.simps)

theorem in_flight_key_is_cache_miss_witness:
  "indirect_objs (insert_placeholder 7 empty_holder) 7 = Some None \<and>
   GetIndirectObjectInternal (insert_placeholder 7 empty_holder) 7 = None \<and>
   GetOrParseIndirectObjectInternal 0 self_referential_parser 7 (insert_placeholder 7 empty_holder)
     = Some (None, insert_placeholder 7 empty_holder) \<and>
   GetOrParseIndirectObjectInternal (Suc 0) self_referential_parser 7 empty_holder
     = Some (None, empty_holder)"
proof -
  have p: "indirect_objs (insert_placeholder 7 empty_holder) 7 = Some None"
    by (simp add: insert_placeholder_def)
  have e: "indirect_objs empty_holder 7 = None"
    by (simp add: empty_holder_def)
  have r: "GetOrParseIndirectObjectInternal (Suc 0) self_referential_parser 7 empty_holder =
        map_option (store_parsed 7)
          (GetOrParseIndirectObjectInternal 0 self_referential_parser 7
             (insert_placeholder 7 empty_holder))"
    using e by (simp add: GetOrParseIndirectObjectInternal.simps [of "Suc 0"]
        self_referential_parser_def kInvalidObjNum_def)
  show ?thesis
    using p r in_flight_key_is_cache_miss [OF p, of 0 self_referential_parser]
      store_parsed_failure_restores [OF e]
    by simp
qed

text \<open>
  C10, as amended.  When \<open>ReplaceIndirectObjectIfHigherGeneration\<close> is called with a valid
  non-zero object number and a non-null object while the holder has no valid entry under
  that number, the call returns true, the object is stored with its object number set,
  and the counter is at least the object number afterwards.  A following
  \<open>AddIndirectObject\<close> assigns a strictly higher number provided the counter is not
  \<open>0xFFFFFFFF\<close>: the counter is a \<open>uint32_t\<close> and \<open>++last_obj_num_\<close> wraps.
\<close>

theorem replace_without_valid_entry:
  assumes "objnum \<noteq> 0" "objnum \<noteq> kInvalidObjNum" "GetIndirectObjectInternal h objnum = None"
  shows "fst (ReplaceIndirectObjectIfHigherGeneration h objnum (Some obj)) \<and>
     GetIndirectObjectInternal (snd (ReplaceIndirectObjectIfHigherGeneration h objnum (Some obj))) objnum
       = Some (obj\<lparr>obj_num := objnum\<rparr>) \<and>
     objnum \<le> last_obj_num (snd (ReplaceIndirectObjectIfHigherGeneration h objnum (Some obj))) \<and>
     (obj_num pObj = 0 \<and>
      last_obj_num (snd (ReplaceIndirectObjectIfHigherGeneration h objnum (Some obj))) \<noteq> - 1 \<longrightarrow>
        (case AddIndirectObject (snd (ReplaceIndirectObjectIfHigherGeneration h objnum (Some obj))) pObj of
           None \<Rightarrow> False
         | Some r \<Rightarrow> objnum < fst r))"
proof -
  let ?p = "case indirect_objs h objnum of None \<Rightarrow> None | Some p \<Rightarrow> p"
  have nov: "FilterInvalidObjNum ?p = None"
    using assms(3)
    by (auto simp: GetIndirectObjectInternal_def FilterInvalidObjNum_def split: option.splits)
  define h' where
    "h' = h\<lparr>indirect_objs := (indirect_objs h)(objnum \<mapsto> Some (obj\<lparr>obj_num := objnum\<rparr>)),
            last_obj_num := max (last_obj_num h) objnum\<rparr>"
  have r: "ReplaceIndirectObjectIfHigherGeneration h objnum (Some obj) = (True, h')"
    using assms(2) nov by (simp add: ReplaceIndirectObjectIfHigherGeneration_def Let_def h'_def)
  have g: "GetIndirectObjectInternal h' objnum = Some (obj\<lparr>obj_num := objnum\<rparr>)"
    using assms(2) by (simp add: h'_def GetIndirectObjectInternal_def FilterInvalidObjNum_def)
  have l: "objnum \<le> last_obj_num h'" by (simp add: h'_def)
  have a: "case AddIndirectObject h' pObj of None \<Rightarrow> False | Some r \<Rightarrow> objnum < fst r"
    if "obj_num pObj = 0" "last_obj_num h' \<noteq> - 1"
    using that l by (simp add: AddIndirectObject_def Let_def word32_lt_succ)
  show ?thesis using g l a by (simp add: r)
qed

theorem replace_without_valid_entry_witness:
  "(5 :: 32 word) \<noteq> 0 \<and> 5 \<noteq> kInvalidObjNum \<and> GetIndirectObjectInternal empty_holder 5 = None \<and>
   obj_num fresh_object = 0 \<and>
   last_obj_num (snd (ReplaceIndirectObjectIfHigherGeneration empty_holder 5 (Some fresh_object))) \<noteq> - 1 \<and>
   fst (ReplaceIndirectObjectIfHigherGeneration empty_holder 5 (Some fresh_object)) \<and>
   map_option fst
     (AddIndirectObject (snd (ReplaceIndirectObjectIfHigherGeneration empty_holder 5 (Some fresh_object)))
        fresh_object) = Some 6"
proof -
  have a: "(5 :: 32 word) \<noteq> 0" by simp
  have b: "5 \<noteq> kInvalidObjNum" by (simp add: kInvalidObjNum_def)
  have c: "GetIndirectObjectInternal empty_holder 5 = None"
    by (simp add: GetIndirectObjectInternal_def empty_holder_def)
  show ?thesis
    using a b c replace_without_valid_entry [OF a b c, of fresh_object fresh_object]
    by (simp add: ReplaceIndirectObjectIfHigherGeneration_def AddIndirectObject_def empty_holder_def
        fresh_object_def FilterInvalidObjNum_def kInvalidObjNum_def Let_def)
qed

text \<open>
  The claim without the proviso fails.  In the run \<open>wrap_trace_h1\<close>, \<open>wrap_trace_h2\<close>,
  \<open>wrap_trace_h3\<close> the holder has no entry under 5, the replacement under 5 returns true,
  the counter stands at \<open>0xFFFFFFFF\<close>, and the following \<open>AddIndirectObject\<close> assigns
  number 0, which is not above 5.
\<close>

theorem add_after_replace_wraps_counterexample:
  "GetIndirectObjectInternal wrap_trace_h2 5 = None \<and>
   fst (ReplaceIndirectObjectIfHigherGeneration wrap_trace_h2 5 (Some fresh_object)) \<and>
   last_obj_num wrap_trace_h3 = 0xFFFFFFFF \<and>
   map_option fst (AddIndirectObject wrap_trace_h3 fresh_object) = Some 0 \<and>
   \<not> (5 < (0 :: 32 word))"
  by (simp add: wrap_trace_h3_def wrap_trace_h2_def wrap_trace_h1_def
      ReplaceIndirectObjectIfHigherGeneration_def AddIndirectObject_def empty_holder_def
      fresh_object_def FilterInvalidObjNum_def GetIndirectObjectInternal_def kInvalidObjNum_def Let_def)

section \<open>Properties of the JSONL string escaping\<close>
















section \<open>Properties of the thread-count policy\<close>

lemma int_le_div: 
  fixes wc tc H :: int
  assumes "0 < wc" "wc * tc \<le> H"
  shows "tc \<le> H div wc"
proof -
  have "(wc * tc) div wc \<le> H div wc" using assms by (intro zdiv_mono1) simp_all
  then show ?thesis using assms(1) by simp
qed

lemma int_div_lt:
  fixes wc tc H :: int
  assumes "0 < wc" "H < wc * tc"
  shows "H div wc < tc"
proof (rule ccontr)
  assume "\<not> H div wc < tc"
  then have "tc \<le> H div wc" by simp
  then have "wc * tc \<le> wc * (H div wc)" using assms(1) by (simp add: mult_left_mono)
  moreover have "wc * (H div wc) + H mod wc = H" by simp
  moreover have "0 \<le> H mod wc" using assms(1) by simp
  ultimately show False using assms(2) by linarith
qed

text \<open>
  C4.  In the hybrid case (more than one worker process and more than one thread) \<open>main\<close>
  leaves \<open>min thread_count (max 1 (H div worker_count))\<close> threads for each child, with
  \<open>H\<close> the hardware thread count (8 when it is unknown), and prints a notice whenever this
  lowers the count.  The count is settled before \<open>render_pages_fast\<close> spawns the children:
  \<open>main_thread_count\<close> is what they receive.
\<close>

theorem hybrid_thread_count_capped:
  assumes "1 < worker_count" "1 < thread_count"
  shows "fst (hybrid_thread_cap hw worker_count thread_count)
          = min thread_count (max 1 (effective_hw hw div worker_count)) \<and>
         (fst (hybrid_thread_cap hw worker_count thread_count) < thread_count \<longrightarrow>
            snd (hybrid_thread_cap hw worker_count thread_count) \<noteq> [])"
proof -
  let ?H = "effective_hw hw"
  have H: "int (if hw = 0 then 8 else hw) = ?H" by (simp add: effective_hw_def)
  have wc: "0 < worker_count" using assms(1) by simp
  show ?thesis
  proof (cases "worker_count * thread_count > ?H")
    case True
    then have "?H div worker_count < thread_count" using wc by (intro int_div_lt) simp_all
    then have "min thread_count (max 1 (?H div worker_count)) = max 1 (?H div worker_count)"
      using assms(2) by simp
    then show ?thesis using True assms H by (simp add: hybrid_thread_cap_def Let_def)
  next
    case False
    then have "thread_count \<le> ?H div worker_count" using wc by (intro int_le_div) simp_all
    then have "min thread_count (max 1 (?H div worker_count)) = thread_count" by simp
    then show ?thesis using False assms H by (simp add: hybrid_thread_cap_def Let_def)
  qed
qed


text \<open>
  With 16 workers and 16 threads asked for on hardware with 8 threads, the flag parser
  first clamps 16 to 8 (one notice), the hybrid cap then lowers 8 to 1 (another notice),
  and each child keeps the 1 it is given.
\<close>

theorem hybrid_thread_count_capped_witness:
  "(1 :: int) < 16 \<and> (1 :: int) < 8 \<and>
   parse_threads_flag 8 16 = (8, [Thread_count_clamped 16 8]) \<and>
   hybrid_thread_cap 8 16 8 = (1, [Reducing_threads 8 1 16 8 128 8]) \<and>
   min 8 (max 1 (effective_hw 8 div 16)) = 1 \<and>
   main_thread_count 8 16 16 = (1, [Thread_count_clamped 16 8, Reducing_threads 8 1 16 8 128 8]) \<and>
   worker_thread_cap 8 1 = 1"
  using hybrid_thread_count_capped [of 16 8 8]
  by (simp add: main_thread_count_def parse_threads_flag_def hybrid_thread_cap_def
      worker_thread_cap_def effective_hw_def Let_def)


section \<open>Properties of the scale and the pixel dimensions\<close>







text \<open>
  The result does not hinge on the exactness of real arithmetic: it is the same for every
  scale within \<open>1e-9\<close> of 4.166666 and every product within \<open>1e-9\<close> of the exact one,
  which is far more than the rounding of a \<open>double\<close> can move them.
\<close>

lemma letter_page_at_300_dpi_robust:
  fixes e1 e2 :: real
  assumes "\<bar>e1\<bar> \<le> 1 / 10 ^ 9" "\<bar>e2\<bar> \<le> 1 / 10 ^ 9"
  shows "\<lfloor>612 * (4.166666 + e1) + e2\<rfloor> = 2549 \<and> \<lfloor>792 * (4.166666 + e1) + e2\<rfloor> = 3299"
proof -
  have "2549 \<le> 612 * (4.166666 + e1) + e2" "612 * (4.166666 + e1) + e2 < 2550"
       "3299 \<le> 792 * (4.166666 + e1) + e2" "792 * (4.166666 + e1) + e2 < 3300"
    using assms by (simp_all add: abs_le_iff) 
  then show ?thesis by (simp add: floor_unique)
qed

section \<open>Properties of the rendering paths\<close>

lemmas trace_defs = ProcessTaskV2_def ProcessTask_def single_threaded_page_v2_def single_threaded_page_def
  make_task_v2_def make_task_def render_acquired_v2_def form_open_calls_def form_close_calls_def
  defer_or_close_def fill_color_def render_flags_for_def options_form_handle_def options_output_format_def
  options_dpi_def ParallelFormatToFPDFFormat_def FPDF_PARALLEL_FORMAT_GRAY_def FPDF_PARALLEL_FORMAT_BGR_def
  FPDF_GRAYSCALE_def bitmap_operations_def


text \<open>
  Without a form handle the single-threaded loops and the worker tasks issue the same
  bitmap operations for every page, in both versions of the interface.
\<close>

lemma calls_agree_without_form_v2:
  assumes "\<not> options_form_handle options"
  shows "map_behaviour bitmap_operations (single_threaded_page_v2 env w h rot fl options p) =
         map_behaviour bitmap_operations (ProcessTaskV2 env (make_task_v2 w h rot fl options p))"
  using assms
  by (auto simp add: single_threaded_page_v2_def ProcessTaskV2_def make_task_v2_def render_acquired_v2_def
      form_open_calls_def form_close_calls_def defer_or_close_def bitmap_operations_def Let_def
      options_dpi_def
      split: behaviour.splits option.splits prod.splits)

lemma calls_agree_without_form_v1:
  assumes "\<not> options_form_handle options"
  shows "bitmap_operations (single_threaded_page env w h rot fl options p) =
         bitmap_operations (ProcessTask env (make_task w h rot fl options p))"
  using assms
  by (auto simp add: single_threaded_page_def ProcessTask_def make_task_def 
      form_open_calls_def form_close_calls_def defer_or_close_def bitmap_operations_def Let_def)

text \<open>
  C1.  The single-threaded loops and the worker tasks are meant to issue the same bitmap
  operations, and do not when the caller passes a form handle: for a caller that asks
  for grayscale output with a form handle, the loops of \<open>FPDF_RenderPagesParallelV2\<close> and
  \<open>FPDF_RenderPagesParallel\<close> issue no form event and draw the form overlay with the
  grayscale flag set, whereas \<open>ProcessTaskV2\<close> and \<open>ProcessTask\<close> issue the four form
  events and draw the overlay with the caller's flags.
\<close>

theorem single_threaded_and_worker_calls_differ:
  "map_behaviour bitmap_operations
     (single_threaded_page_v2 letter_env 100 100 0 0 (Some gray_form_options) 0) =
   Defined [BitmapPool_Acquire 100 100 FPDFBitmap_Gray, FPDFBitmap_FillRect 100 100 0xFFFFFFFF,
            FPDF_RenderPageBitmap 0 100 100 0 0x08, FPDF_FFLDraw 0 100 100 0 0x08] \<and>
   map_behaviour bitmap_operations
     (ProcessTaskV2 letter_env (make_task_v2 100 100 0 0 (Some gray_form_options) 0)) =
   Defined [FORM_OnAfterLoadPage 0, FORM_DoPageAAction 0 FPDFPAGE_AACTION_OPEN,
            BitmapPool_Acquire 100 100 FPDFBitmap_Gray, FPDFBitmap_FillRect 100 100 0xFFFFFFFF,
            FPDF_RenderPageBitmap 0 100 100 0 0x08, FPDF_FFLDraw 0 100 100 0 0,
            FORM_DoPageAAction 0 FPDFPAGE_AACTION_CLOSE, FORM_OnBeforeClosePage 0] \<and>
   bitmap_operations (single_threaded_page letter_env 100 100 0 0 (Some gray_form_options) 0) =
     [FPDFBitmap_CreateEx 100 100 FPDFBitmap_Gray, FPDFBitmap_FillRect 100 100 0xFFFFFFFF,
      FPDF_RenderPageBitmap 0 100 100 0 0x08, FPDF_FFLDraw 0 100 100 0 0x08] \<and>
   bitmap_operations (ProcessTask letter_env (make_task 100 100 0 0 (Some gray_form_options) 0)) =
     [FORM_OnAfterLoadPage 0, FORM_DoPageAAction 0 FPDFPAGE_AACTION_OPEN,
      FPDFBitmap_CreateEx 100 100 FPDFBitmap_Gray, FPDFBitmap_FillRect 100 100 0xFFFFFFFF,
      FPDF_RenderPageBitmap 0 100 100 0 0x08, FPDF_FFLDraw 0 100 100 0 0,
      FORM_DoPageAAction 0 FPDFPAGE_AACTION_CLOSE, FORM_OnBeforeClosePage 0]"
  by (simp add: trace_defs letter_env_def gray_form_options_def Let_def)


section \<open>Properties of the dimension checks\<close>

text \<open>
  In the single-threaded batch a page whose pixel width or height would exceed \<open>INT_MAX\<close>
  is rejected by the explicit test, the page counts as failed, and the loop visits every
  page whatever the earlier ones returned.
\<close>

lemma page_pixel_size_too_large:
  assumes "width_pts * render_scale dpi > of_int INT_MAX \<or> height_pts * render_scale dpi > of_int INT_MAX"
  shows "page_pixel_size dpi width_pts height_pts = Dimensions_too_large"
  using assms by (auto simp add: page_pixel_size_def render_scale_def Let_def)


lemma render_page_to_png_too_large:
  assumes "doc page_index = Some page"
    and "fst (smart_mode_block cfg io page_index page) = Normal_rendering"
    and "page_width page * render_scale d > of_int INT_MAX \<or>
         page_height page * render_scale d > of_int INT_MAX"
  shows "render_page_to_png cfg io d finish doc page_index = 1"
  using assms page_pixel_size_too_large [OF assms(3)]
  by (simp add: render_page_to_png_def)

lemma single_threaded_loop_counts:
  "single_threaded_loop render pages (pages_processed, pages_failed) =
     (pages_processed + length pages, pages_failed + length (filter (\<lambda>p. render p \<noteq> 0) pages))"
  by (induction pages arbitrary: pages_processed pages_failed) simp_all



section \<open>Properties of smart mode\<close>












section \<open>Properties of the worker pool\<close>










text \<open>
  A worker that processes a task invokes the completion callback exactly once on every
  path through \<open>ProcessTask\<close> and on every defined path through \<open>ProcessTaskV2\<close>; this is
  the step \<open>Callback_returns\<close> of the pool.
\<close>

lemma ProcessTask_one_callback:
  "length (filter is_callback (ProcessTask env task)) = 1"
  by (simp add: ProcessTask_def form_open_calls_def form_close_calls_def defer_or_close_def Let_def)

lemma render_acquired_v2_one_callback:
  "length (filter is_callback (render_acquired_v2 env task w h)) = 1"
  by (simp add: render_acquired_v2_def form_close_calls_def defer_or_close_def Let_def)

lemma ProcessTaskV2_one_callback:
  assumes "ProcessTaskV2 env task = Defined calls"
  shows "length (filter is_callback calls) = 1"
  using assms render_acquired_v2_one_callback [of env task]
  by (auto simp add: ProcessTaskV2_def form_open_calls_def Let_def
      split: if_splits behaviour.splits prod.splits)
















end
